theory Spec2Isabelle
  imports Complex_Main "HOL-Library.Word" "HOL-Library.Log_Nat" "HOL-Library.Monad_Syntax"
begin

section \<open>C arithmetic used by touchpad-emulator.c\<close>

subsection \<open>Machine integers\<close>

text \<open>
  Every integer field the program reads (\<^verbatim>\<open>__s32\<close> members of
  \<^verbatim>\<open>struct input_absinfo\<close> and \<^verbatim>\<open>struct input_event\<close>, \<^verbatim>\<open>__u16\<close> type and code)
  is a machine word. Signed fields are read with \<open>sint\<close>. Arithmetic on \<^verbatim>\<open>int\<close> whose
  mathematical result leaves the 32-bit range is undefined behaviour in C; the model
  returns \<open>None\<close> for it instead of picking a wrap-around.
\<close>

type_synonym s32 = "32 word"
type_synonym u16 = "16 word"
type_synonym s64 = "64 word"

definition in_int :: "int \<Rightarrow> bool" where
  "in_int i \<longleftrightarrow> - (2 ^ 31) \<le> i \<and> i < 2 ^ 31"

definition c_int :: "int \<Rightarrow> int option" where
  "c_int i = (if in_int i then Some i else None)"

text \<open>The macros of lines 39 and 40, with the comparisons the source writes.\<close>

definition min_c :: "int \<Rightarrow> int \<Rightarrow> int" where
  "min_c a b = (if a < b then a else b)"

definition max_c :: "int \<Rightarrow> int \<Rightarrow> int" where
  "max_c a b = (if a > b then a else b)"

subsection \<open>Double precision\<close>

text \<open>
  A finite \<^verbatim>\<open>double\<close> is the rational number it denotes. Each arithmetic operation
  computes the exact rational result and rounds it once to the nearest binary64 value,
  ties to the even significand (the default rounding mode; no fused multiply-add, no
  excess precision). \<open>ilog2 x\<close> is the binary exponent of a non-zero \<open>x\<close>, so that
  \<open>x / 2 powi (ilog2 x - 52)\<close> has magnitude in \<open>[2^52, 2^53)\<close> and rounding it to an
  integer keeps 53 significant bits. The exponent range of binary64 is not modelled:
  with 32-bit operands every intermediate value of \<^verbatim>\<open>map_event\<close> is zero or has magnitude
  between \<open>2^-32\<close> and \<open>2^66\<close>, far inside the normal range.
\<close>

type_synonym double = rat

definition round_even :: "rat \<Rightarrow> int" where
  "round_even x =
     (let f = \<lfloor>x\<rfloor>; d = x - of_int f
      in if d < 1 / 2 then f
         else if 1 / 2 < d then f + 1
         else if even f then f else f + 1)"

definition ilog2 :: "rat \<Rightarrow> int" where
  "ilog2 x =
     (let a = \<bar>x\<bar>
      in if 1 \<le> a then bitlen \<lfloor>a\<rfloor> - 1 else - bitlen (\<lceil>1 / a\<rceil> - 1))"

definition rnd :: "rat \<Rightarrow> double" where
  "rnd x =
     (if x = 0 then 0
      else let k = ilog2 x - 52
           in of_int (round_even (x / (2 powi k))) * (2 powi k))"

definition d_add :: "double \<Rightarrow> double \<Rightarrow> double" where
  "d_add x y = rnd (x + y)"

definition d_sub :: "double \<Rightarrow> double \<Rightarrow> double" where
  "d_sub x y = rnd (x - y)"

definition d_mul :: "double \<Rightarrow> double \<Rightarrow> double" where
  "d_mul x y = rnd (x * y)"

text \<open>Division by a non-zero divisor; the caller handles a zero divisor.\<close>

definition d_div :: "double \<Rightarrow> double \<Rightarrow> double" where
  "d_div x y = rnd (x / y)"

text \<open>Conversion of an \<^verbatim>\<open>int\<close> operand to \<^verbatim>\<open>double\<close>: exact, 32 bits fit in 53.\<close>

definition i2d :: "int \<Rightarrow> double" where
  "i2d i = of_int i"

text \<open>
  The cast \<^verbatim>\<open>(int)val\<close>: the fraction is discarded (truncation toward zero); the
  behaviour is undefined when the integral part is not an \<^verbatim>\<open>int\<close>.
\<close>

definition trunc :: "double \<Rightarrow> int" where
  "trunc x = (if 0 \<le> x then \<lfloor>x\<rfloor> else \<lceil>x\<rceil>)"

definition d2i :: "double \<Rightarrow> int option" where
  "d2i x = c_int (trunc x)"

section \<open>Devices and events\<close>

text \<open>
  \<^verbatim>\<open>struct input_absinfo\<close>: the three members \<^verbatim>\<open>map_event\<close> reads (the others,
  current value, fuzz and flat, are never read by this program).
\<close>

record input_absinfo =
  minimum :: s32
  maximum :: s32
  resolution :: s32

record timeval =
  tv_sec :: s64
  tv_usec :: s64

text \<open>\<^verbatim>\<open>struct input_event\<close>: members time, type, code, value.\<close>

record input_event =
  ev_time :: timeval
  ev_type :: u16
  ev_code :: u16
  ev_value :: s32

text \<open>Event type and axis codes of \<^verbatim>\<open>linux/input-event-codes.h\<close>.\<close>

definition EV_ABS :: u16 where "EV_ABS = 0x03"
definition ABS_X :: u16 where "ABS_X = 0x00"
definition ABS_Y :: u16 where "ABS_Y = 0x01"
definition ABS_MT_POSITION_X :: u16 where "ABS_MT_POSITION_X = 0x35"
definition ABS_MT_POSITION_Y :: u16 where "ABS_MT_POSITION_Y = 0x36"

text \<open>
  What the program can ask a device about an axis: its \<^verbatim>\<open>input_absinfo\<close>, or nothing
  when the device does not have the axis. \<^verbatim>\<open>libevdev_get_abs_info\<close> returns a null
  pointer for a missing axis; the \<^verbatim>\<open>evemu_get_abs_*\<close> and
  \<^verbatim>\<open>libevdev_get_abs_*\<close> getters return 0 for it.
\<close>

type_synonym libevdev = "u16 \<Rightarrow> input_absinfo option"
type_synonym evemu_device = "u16 \<Rightarrow> input_absinfo option"

definition libevdev_get_abs_info :: "libevdev \<Rightarrow> u16 \<Rightarrow> input_absinfo option" where
  "libevdev_get_abs_info dev c = dev c"

definition libevdev_get_abs_resolution :: "libevdev \<Rightarrow> u16 \<Rightarrow> s32" where
  "libevdev_get_abs_resolution dev c = (case dev c of None \<Rightarrow> 0 | Some a \<Rightarrow> resolution a)"

definition evemu_get_abs_minimum :: "evemu_device \<Rightarrow> u16 \<Rightarrow> s32" where
  "evemu_get_abs_minimum dev c = (case dev c of None \<Rightarrow> 0 | Some a \<Rightarrow> minimum a)"

definition evemu_get_abs_maximum :: "evemu_device \<Rightarrow> u16 \<Rightarrow> s32" where
  "evemu_get_abs_maximum dev c = (case dev c of None \<Rightarrow> 0 | Some a \<Rightarrow> maximum a)"

definition evemu_get_abs_resolution :: "evemu_device \<Rightarrow> u16 \<Rightarrow> s32" where
  "evemu_get_abs_resolution dev c = (case dev c of None \<Rightarrow> 0 | Some a \<Rightarrow> resolution a)"

section \<open>The coordinate transform\<close>

text \<open>
  Lines 111 to 117 of \<^verbatim>\<open>map_event\<close>, for a source range \<open>src\<close>, a destination range
  \<open>dst\<close> and the event's value \<open>v\<close>:
  \<^verbatim>\<open>
  val = (event->value - src->minimum - (src->maximum - src->minimum)/2.0)/src->resolution;
  val = val * dst.resolution + (dst.maximum - dst.minimum)/2.0 + dst.minimum;
  event->value = max(dst.minimum, min(dst.maximum, (int)val));
  \<close>
  The two subtractions of \<^verbatim>\<open>int\<close>s are integer operations: they are undefined when
  they overflow. A zero \<^verbatim>\<open>src->resolution\<close> makes the quotient an infinity or a NaN,
  which every later operation keeps, and converting that to \<^verbatim>\<open>int\<close> is undefined.
  The result is \<open>None\<close> in these cases.
\<close>

definition transform :: "input_absinfo \<Rightarrow> input_absinfo \<Rightarrow> s32 \<Rightarrow> s32 option" where
  "transform src dst v = do {
     a \<leftarrow> c_int (sint v - sint (minimum src));
     w \<leftarrow> c_int (sint (maximum src) - sint (minimum src));
     dw \<leftarrow> c_int (sint (maximum dst) - sint (minimum dst));
     if sint (resolution src) = 0 then None
     else do {
       let val1 = d_div (d_sub (i2d a) (d_div (i2d w) 2)) (i2d (sint (resolution src)));
       let val2 = d_add (d_add (d_mul val1 (i2d (sint (resolution dst)))) (d_div (i2d dw) 2))
                        (i2d (sint (minimum dst)));
       t \<leftarrow> d2i val2;
       Some (word_of_int (max_c (sint (minimum dst)) (min_c (sint (maximum dst)) t)))
     }
   }"

text \<open>
  \<^verbatim>\<open>map_event\<close> (lines 96 to 118): looks the two ranges up by the event's code and
  overwrites the event's value. Dereferencing the null pointer that
  \<^verbatim>\<open>libevdev_get_abs_info\<close> returns for a missing axis is undefined: \<open>None\<close>.
\<close>

definition map_event :: "libevdev \<Rightarrow> evemu_device \<Rightarrow> input_event \<Rightarrow> input_event option" where
  "map_event source dest event =
     (case libevdev_get_abs_info source (ev_code event) of
        None \<Rightarrow> None
      | Some src \<Rightarrow>
          let dst = \<lparr> minimum = evemu_get_abs_minimum dest (ev_code event),
                      maximum = evemu_get_abs_maximum dest (ev_code event),
                      resolution = evemu_get_abs_resolution dest (ev_code event) \<rparr>
          in (case transform src dst (ev_value event) of
                None \<Rightarrow> None
              | Some v \<Rightarrow> Some (event \<lparr> ev_value := v \<rparr>)))"

section \<open>Dispatching one event\<close>

text \<open>
  What the program does to the outside, in order: the events it hands to
  \<^verbatim>\<open>evemu_play_one\<close>, the lines it writes to the error stream, and its calls of
  \<^verbatim>\<open>libevdev_grab\<close>. Text written with \<^verbatim>\<open>printf\<close> to standard output (usage, banner,
  Nyquist warnings, the mapping trace) is left out: nothing depends on it.
\<close>

datatype grab_mode = LIBEVDEV_GRAB | LIBEVDEV_UNGRAB

datatype diagnostic =
    Perror string   \<comment> \<open>\<^verbatim>\<open>perror(msg)\<close>\<close>
  | Cannot_keep_up  \<comment> \<open>\<^verbatim>\<open>error: cannot keep up\<close>\<close>
  | Read_error int  \<comment> \<open>\<^verbatim>\<open>error: strerror(-rc)\<close>\<close>

datatype action =
    Play input_event
  | Diag diagnostic
  | Grab grab_mode

type_synonym trace = "action list"

text \<open>\<^verbatim>\<open>pass_event\<close> (lines 88 to 94): one call of \<^verbatim>\<open>evemu_play_one\<close> with the event.\<close>

definition pass_event :: "input_event \<Rightarrow> trace \<Rightarrow> trace" where
  "pass_event event tr = tr @ [Play event]"

text \<open>
  \<^verbatim>\<open>handle_event\<close> (lines 120 to 143). \<open>None\<close> when \<^verbatim>\<open>map_event\<close> is undefined.
\<close>

definition handle_event :: "libevdev \<Rightarrow> evemu_device \<Rightarrow> input_event \<Rightarrow> trace \<Rightarrow> trace option" where
  "handle_event source dest event tr =
     (if ev_type event \<noteq> EV_ABS then Some (pass_event event tr)
      else if ev_code event = ABS_X \<or> ev_code event = ABS_Y
              \<or> ev_code event = ABS_MT_POSITION_X \<or> ev_code event = ABS_MT_POSITION_Y
      then (case map_event source dest event of
              None \<Rightarrow> None
            | Some event' \<Rightarrow> Some (pass_event event' tr))
      else Some (pass_event event tr))"

section \<open>The event loop\<close>

text \<open>
  The environment of the loop is a script: what each call of \<^verbatim>\<open>poll\<close> reports (its
  return value and the \<^verbatim>\<open>revents\<close> of the two descriptors afterwards) and what each call
  of \<^verbatim>\<open>libevdev_next_event\<close> returns (its status and the event it stored). A script is a
  finite prefix of what the environment does; when it is used up the program has not
  returned: in \<^verbatim>\<open>poll\<close> it waits (there is no timeout), and this is the outcome
  \<open>Pending\<close>. \<open>Undefined\<close> is undefined behaviour of the C program.
\<close>

record poll_result =
  poll_ret :: int
  revents_source :: u16
  revents_signal :: u16

type_synonym read_result = "int \<times> input_event"

datatype outcome = Returned int | Pending | Undefined

text \<open>Status values of \<^verbatim>\<open>libevdev.h\<close> and \<^verbatim>\<open>errno.h\<close>.\<close>

definition LIBEVDEV_READ_STATUS_SUCCESS :: int where "LIBEVDEV_READ_STATUS_SUCCESS = 0"
definition LIBEVDEV_READ_STATUS_SYNC :: int where "LIBEVDEV_READ_STATUS_SYNC = 1"
definition EAGAIN :: int where "EAGAIN = 11"

text \<open>
  The \<^verbatim>\<open>do ... while (rc != -EAGAIN)\<close> of lines 168 to 180. \<open>Drained\<close>: the loop ended
  and the outer loop goes on; \<open>Stop r\<close>: \<^verbatim>\<open>mainloop\<close> returned \<open>r\<close> from inside it.
\<close>

datatype drain_exit = Drained | Stop outcome

fun drain :: "libevdev \<Rightarrow> evemu_device \<Rightarrow> read_result list \<Rightarrow> trace
              \<Rightarrow> drain_exit \<times> read_result list \<times> trace" where
  "drain source dest [] tr = (Stop Pending, [], tr)"
| "drain source dest ((rc, ev) # rs) tr =
     (if rc = LIBEVDEV_READ_STATUS_SYNC
      then (Stop (Returned 1), rs, tr @ [Diag Cannot_keep_up])
      else if rc \<noteq> - EAGAIN \<and> rc < 0
      then (Stop (Returned 1), rs, tr @ [Diag (Read_error rc)])
      else (case (if rc = LIBEVDEV_READ_STATUS_SUCCESS
                  then handle_event source dest ev tr else Some tr) of
              None \<Rightarrow> (Stop Undefined, rs, tr)
            | Some tr' \<Rightarrow>
                if rc \<noteq> - EAGAIN then drain source dest rs tr' else (Drained, rs, tr')))"

text \<open>
  \<^verbatim>\<open>mainloop\<close> (lines 145 to 184): the \<^verbatim>\<open>while (poll(pollfd, 2, -1))\<close> loop, left by
  \<^verbatim>\<open>break\<close> when the signal descriptor has events, followed by \<^verbatim>\<open>return 0\<close>. Its
  result is the outcome, the unread rest of the read script, and the trace. The lines
  before the loop (the two \<^verbatim>\<open>pollfd\<close> entries, the signal mask) only decide what
  \<^verbatim>\<open>poll\<close> reports, which the script gives.
\<close>

fun mainloop :: "libevdev \<Rightarrow> evemu_device \<Rightarrow> poll_result list \<Rightarrow> read_result list \<Rightarrow> trace
                 \<Rightarrow> outcome \<times> read_result list \<times> trace" where
  "mainloop source dest [] rs tr = (Pending, rs, tr)"
| "mainloop source dest (p # ps) rs tr =
     (if poll_ret p = 0 then (Returned 0, rs, tr)
      else if revents_signal p \<noteq> 0 then (Returned 0, rs, tr)
      else (case drain source dest rs tr of
              (Stop r, rs', tr') \<Rightarrow> (r, rs', tr')
            | (Drained, rs', tr') \<Rightarrow> mainloop source dest ps rs' tr'))"

section \<open>The session\<close>

text \<open>
  What the environment answers during \<^verbatim>\<open>main\<close>: the results of the calls that open and
  initialise the two devices, the two devices' axis tables, the results of the two
  \<^verbatim>\<open>ioctl\<close>s behind \<^verbatim>\<open>libevdev_grab\<close>, and the scripts of the loop.
\<close>

record environment =
  fopen_ok :: bool
  open_source :: int
  new_from_fd_rc :: int
  source_dev :: libevdev
  evemu_read_rc :: int
  evemu_create_rc :: int
  dest_dev :: evemu_device
  open_dest :: int
  grab_rc :: int
  ungrab_rc :: int
  polls :: "poll_result list"
  reads :: "read_result list"

text \<open>
  \<^verbatim>\<open>libevdev_grab\<close>: the device's grab state after the call, from the state before, the
  requested mode and the result of the \<^verbatim>\<open>ioctl\<close>.
\<close>

definition libevdev_grab :: "bool \<Rightarrow> grab_mode \<Rightarrow> int \<Rightarrow> bool" where
  "libevdev_grab grabbed mode rc = (if rc = 0 then mode = LIBEVDEV_GRAB else grabbed)"

text \<open>
  The comparison \<^verbatim>\<open>srcres < dstres * 2\<close> of lines 250 and 256. It only selects a
  warning on standard output, but the multiplication is undefined when it overflows.
\<close>

definition nyquist_not_met :: "libevdev \<Rightarrow> evemu_device \<Rightarrow> u16 \<Rightarrow> bool option" where
  "nyquist_not_met source dev c = do {
     let srcres = sint (libevdev_get_abs_resolution source c);
     let dstres = sint (evemu_get_abs_resolution dev c);
     d \<leftarrow> c_int (dstres * 2);
     Some (srcres < d)
   }"

record session =
  exit_status :: outcome
  session_trace :: trace
  grabbed :: bool

text \<open>
  Lines 198 to 259 of \<^verbatim>\<open>main\<close>: the checks before the device is grabbed. \<open>Some s\<close>
  when \<^verbatim>\<open>main\<close> ends there with session \<open>s\<close>, \<open>None\<close> when it goes on to line 263.
\<close>

definition startup :: "string list \<Rightarrow> environment \<Rightarrow> session option" where
  "startup argv env =
     (if \<not> (length argv = 5 \<and> argv ! 1 = ''dest'' \<and> argv ! 3 = ''source'')
      then Some \<lparr> exit_status = Returned 1, session_trace = [], grabbed = False \<rparr>
      else if \<not> fopen_ok env
      then Some \<lparr> exit_status = Returned 1,
                   session_trace = [Diag (Perror ''Failed to open source file'')],
                   grabbed = False \<rparr>
      else if open_source env < 0
      then Some \<lparr> exit_status = Returned 1,
                   session_trace = [Diag (Perror ''Failed to open dest device'')],
                   grabbed = False \<rparr>
      else if new_from_fd_rc env < 0
      then Some \<lparr> exit_status = Returned 1,
                   session_trace = [Diag (Perror ''Failed to init libevdev'')],
                   grabbed = False \<rparr>
      else if evemu_read_rc env < 0
      then Some \<lparr> exit_status = Returned 1,
                   session_trace = [Diag (Perror ''Failed to read evemu file'')],
                   grabbed = False \<rparr>
      else if evemu_create_rc env < 0
      then Some \<lparr> exit_status = Returned 1,
                   session_trace = [Diag (Perror ''Failed to create evemu device'')],
                   grabbed = False \<rparr>
      else if open_dest env < 0
      then Some \<lparr> exit_status = Returned 1,
                   session_trace = [Diag (Perror ''Failed to create target fd'')],
                   grabbed = False \<rparr>
      else if nyquist_not_met (source_dev env) (dest_dev env) ABS_X = None
      then Some \<lparr> exit_status = Undefined, session_trace = [], grabbed = False \<rparr>
      else if nyquist_not_met (source_dev env) (dest_dev env) ABS_Y = None
      then Some \<lparr> exit_status = Undefined, session_trace = [], grabbed = False \<rparr>
      else None)"

text \<open>
  \<^verbatim>\<open>main\<close> (lines 186 to 268). After the checks:
  \<^verbatim>\<open>
  libevdev_grab(source, LIBEVDEV_GRAB);
  mainloop(source, dev, destfd);
  libevdev_grab(source, LIBEVDEV_UNGRAB);
  return 0;
  \<close>
  The results of the three calls are discarded.
\<close>

definition main :: "string list \<Rightarrow> environment \<Rightarrow> session" where
  "main argv env =
     (case startup argv env of
        Some s \<Rightarrow> s
      | None \<Rightarrow>
          let g = libevdev_grab False LIBEVDEV_GRAB (grab_rc env)
          in (case mainloop (source_dev env) (dest_dev env) (polls env) (reads env)
                            [Grab LIBEVDEV_GRAB] of
                (Returned r, rs, tr) \<Rightarrow>
                  \<lparr> exit_status = Returned 0,
                    session_trace = tr @ [Grab LIBEVDEV_UNGRAB],
                    grabbed = libevdev_grab g LIBEVDEV_UNGRAB (ungrab_rc env) \<rparr>
              | (other, rs, tr) \<Rightarrow>
                  \<lparr> exit_status = other, session_trace = tr, grabbed = g \<rparr>))"

section \<open>A concrete session\<close>

text \<open>
  Inputs on which the theorems below are evaluated: a command line of the accepted form,
  a source device with the range \<open>{0, 100, 10}\<close> and a destination with the range
  \<open>{0, 50, 5}\<close> on every axis, and an environment in which every call of the startup
  succeeds; the scripts of the loop are filled in where they are used.
\<close>

definition demo_argv :: "string list" where
  "demo_argv = [''touchpad-emulator'', ''dest'', ''pad.evemu'', ''source'', ''/dev/input/event4'']"

definition demo_source :: libevdev where
  "demo_source = (\<lambda>c. Some \<lparr> minimum = 0, maximum = 100, resolution = 10 \<rparr>)"

definition demo_dest :: evemu_device where
  "demo_dest = (\<lambda>c. Some \<lparr> minimum = 0, maximum = 50, resolution = 5 \<rparr>)"

definition demo_event :: "u16 \<Rightarrow> u16 \<Rightarrow> s32 \<Rightarrow> input_event" where
  "demo_event ty c v =
     \<lparr> ev_time = \<lparr> tv_sec = 1, tv_usec = 500 \<rparr>, ev_type = ty, ev_code = c, ev_value = v \<rparr>"

definition demo_env :: "poll_result list \<Rightarrow> read_result list \<Rightarrow> environment" where
  "demo_env ps rs =
     \<lparr> fopen_ok = True, open_source = 3, new_from_fd_rc = 0, source_dev = demo_source,
       evemu_read_rc = 0, evemu_create_rc = 0, dest_dev = demo_dest, open_dest = 4,
       grab_rc = 0, ungrab_rc = 0, polls = ps, reads = rs \<rparr>"

section \<open>Rounding to binary64 is monotone\<close>

text \<open>
  Rounding to the nearest integer with ties to even is monotone and odd; \<open>ilog2\<close> is
  the binary exponent; hence \<open>rnd\<close> stays inside the binade of its argument, is odd and
  is monotone.
\<close>

lemma round_even_of_int: "round_even (of_int n) = n"
  by (simp add: round_even_def)





lemma ilog2_bounds_ge1:
  assumes "1 \<le> (a::rat)"
  shows "2 powi (bitlen \<lfloor>a\<rfloor> - 1) \<le> a" "a < 2 powi (bitlen \<lfloor>a\<rfloor> - 1 + 1)"
proof -
  let ?n = "\<lfloor>a\<rfloor>"
  have n: "0 < ?n" using assms by simp
  from bitlen_bounds [OF n] have lo: "2 ^ nat (bitlen ?n - 1) \<le> ?n" and hi: "?n < 2 ^ nat (bitlen ?n)"
    by simp_all
  have b1: "1 \<le> bitlen ?n" using n by (simp add: bitlen_alt_def)
  have "(2::rat) powi (bitlen ?n - 1) = of_int (2 ^ nat (bitlen ?n - 1))"
    using b1 by (simp add: power_int_def)
  also have "\<dots> \<le> of_int ?n" using lo by (simp only: of_int_le_iff)
  also have "\<dots> \<le> a" by simp
  finally show "2 powi (bitlen \<lfloor>a\<rfloor> - 1) \<le> a" .
  have "?n + 1 \<le> 2 ^ nat (bitlen ?n)" using hi by simp
  then have "(of_int (?n + 1) :: rat) \<le> of_int (2 ^ nat (bitlen ?n))" by (simp only: of_int_le_iff)
  moreover have "a < of_int (?n + 1)" by simp linarith
  moreover have "(2::rat) powi (bitlen ?n - 1 + 1) = of_int (2 ^ nat (bitlen ?n))"
    using b1 by (simp add: power_int_def)
  ultimately show "a < 2 powi (bitlen \<lfloor>a\<rfloor> - 1 + 1)" by simp
qed

lemma ilog2_bounds_lt1:
  assumes "0 < (a::rat)" "a < 1"
  shows "2 powi (- bitlen (\<lceil>1 / a\<rceil> - 1)) \<le> a" "a < 2 powi (- bitlen (\<lceil>1 / a\<rceil> - 1) + 1)"
proof -
  let ?y = "1 / a"
  let ?m = "\<lceil>?y\<rceil> - 1"
  have y1: "1 < ?y" using assms by simp
  have m: "0 < ?m" using y1 by simp 
  have my: "of_int ?m < ?y" by simp linarith 
  have ym: "?y \<le> of_int (?m + 1)" by simp
  from bitlen_bounds [OF m] have lo: "2 ^ nat (bitlen ?m - 1) \<le> ?m" and hi: "?m < 2 ^ nat (bitlen ?m)"
    by simp_all
  have b1: "1 \<le> bitlen ?m" using m by (simp add: bitlen_alt_def)
  have "?m + 1 \<le> 2 ^ nat (bitlen ?m)" using hi by simp
  then have "(of_int (?m + 1) :: rat) \<le> of_int (2 ^ nat (bitlen ?m))" by (simp only: of_int_le_iff)
  then have "(of_int (?m + 1) :: rat) \<le> 2 ^ nat (bitlen ?m)" by (simp only: of_int_power of_int_numeral)
  with ym have "?y \<le> 2 ^ nat (bitlen ?m)" by (rule order_trans)
  then have "1 / 2 ^ nat (bitlen ?m) \<le> a" using assms
    by (simp add: field_simps)
  moreover have "(2::rat) powi (- bitlen ?m) = 1 / 2 ^ nat (bitlen ?m)"
    using b1 by (simp add: power_int_def field_simps)
  ultimately show "2 powi (- bitlen (\<lceil>1 / a\<rceil> - 1)) \<le> a" by simp
  have "(of_int (2 ^ nat (bitlen ?m - 1)) :: rat) \<le> of_int ?m" using lo by (simp only: of_int_le_iff)
  then have "(2::rat) ^ nat (bitlen ?m - 1) \<le> of_int ?m" by (simp only: of_int_power of_int_numeral)
  from this my have "2 ^ nat (bitlen ?m - 1) < ?y" by (rule le_less_trans)
  then have "a < 1 / 2 ^ nat (bitlen ?m - 1)" using assms
    by (simp add: field_simps)
  moreover have "(2::rat) powi (- bitlen ?m + 1) = 1 / 2 ^ nat (bitlen ?m - 1)"
    using b1 by (simp add: power_int_def field_simps)
  ultimately show "a < 2 powi (- bitlen (\<lceil>1 / a\<rceil> - 1) + 1)" by simp
qed

lemma ilog2_bounds:
  assumes "x \<noteq> 0"
  shows "2 powi (ilog2 x) \<le> \<bar>x\<bar>" "\<bar>x\<bar> < 2 powi (ilog2 x + 1)"
  using assms ilog2_bounds_ge1 [of "\<bar>x\<bar>"] ilog2_bounds_lt1 [of "\<bar>x\<bar>"]
  by (auto simp: ilog2_def Let_def not_le)


lemma powi2_less_imp:
  assumes "(2::rat) powi a < 2 powi b"
  shows "a < b"
proof (rule ccontr)
  assume "\<not> a < b"
  then have "b \<le> a" by simp
  then have "(2::rat) powi b \<le> 2 powi a" by (rule power_int_increasing) simp
  with assms show False by simp
qed

lemma powi2_split: "(2::rat) powi (e + n) = 2 powi e * 2 powi n"
  by (rule power_int_add) simp










section \<open>Exactly representable values, truncation and clamping\<close>

text \<open>
  A value with a significand of at most 53 bits is not changed by rounding; in particular
  every \<^verbatim>\<open>int\<close> and every half of an \<^verbatim>\<open>int\<close>.
\<close>

lemma rnd_zero: "rnd 0 = 0"
  by (simp add: rnd_def)

lemma rnd_exact:
  assumes "\<bar>m\<bar> < 2 ^ 53"
  shows "rnd (of_int m * 2 powi j) = of_int m * 2 powi j"
proof (cases "m = 0")
  case True
  then show ?thesis by (simp add: rnd_def)
next
  case False
  let ?x = "of_int m * (2::rat) powi j"
  let ?k = "ilog2 ?x - 52"
  have x0: "?x \<noteq> 0" using False by simp
  have ax: "\<bar>?x\<bar> = of_int \<bar>m\<bar> * 2 powi j"
    by (simp add: abs_mult)
  have "(of_int \<bar>m\<bar> :: rat) < of_int (2 ^ 53)"
    using assms by (simp only: of_int_less_iff)
  then have "(of_int \<bar>m\<bar> :: rat) < 2 ^ 53" by simp
  then have "of_int \<bar>m\<bar> * (2::rat) powi j < 2 ^ 53 * 2 powi j"
    by (rule mult_strict_right_mono) simp
  also have "\<dots> = 2 powi (j + 53)"
    using powi2_split [of j 53] by (simp add: mult.commute)
  finally have "\<bar>?x\<bar> < 2 powi (j + 53)" unfolding ax .
  with ilog2_bounds(1) [OF x0] have "(2::rat) powi (ilog2 ?x) < 2 powi (j + 53)"
    by (rule le_less_trans)
  then have "ilog2 ?x < j + 53" by (rule powi2_less_imp)
  then have kj: "0 \<le> j - ?k" by simp
  have "(2::rat) powi j = 2 powi (?k + (j - ?k))" by simp
  also have "\<dots> = 2 powi ?k * 2 powi (j - ?k)" by (rule powi2_split)
  also have "(2::rat) powi (j - ?k) = 2 ^ nat (j - ?k)"
    using kj by (simp add: power_int_def)
  finally have pj: "(2::rat) powi j = 2 powi ?k * 2 ^ nat (j - ?k)" .
  have "?x / 2 powi ?k = of_int m * 2 ^ nat (j - ?k)"
    by (subst pj) simp
  also have "\<dots> = of_int (m * 2 ^ nat (j - ?k))" by simp
  finally have sc: "?x / 2 powi ?k = of_int (m * 2 ^ nat (j - ?k))" .
  have "rnd ?x = of_int (round_even (?x / 2 powi ?k)) * 2 powi ?k"
    using x0 by (simp add: rnd_def Let_def)
  also have "\<dots> = of_int (m * 2 ^ nat (j - ?k)) * 2 powi ?k"
    by (simp only: sc round_even_of_int)
  also have "\<dots> = of_int m * (2 powi ?k * 2 ^ nat (j - ?k))" by simp
  also have "\<dots> = ?x" by (simp only: pj [symmetric])
  finally show ?thesis .
qed

lemma rnd_of_int:
  assumes "\<bar>m\<bar> < 2 ^ 53"
  shows "rnd (of_int m) = of_int m"
  using rnd_exact [OF assms, of 0] by simp

lemma rnd_half:
  assumes "\<bar>m\<bar> < 2 ^ 53"
  shows "rnd (of_int m / 2) = of_int m / 2"
  using rnd_exact [OF assms, of "-1"] by simp

lemma i2d_exact: "in_int i \<Longrightarrow> rnd (i2d i) = i2d i"
  unfolding i2d_def by (rule rnd_of_int) (simp add: in_int_def abs_less_iff)




lemma in_int_sint: "in_int (sint (w :: s32))"
  using sint_ge [of w] sint_lt [of w] by (simp add: in_int_def)

lemma sint_word_of_int: "in_int i \<Longrightarrow> sint (word_of_int i :: s32) = i"
  by (simp add: in_int_def sint_sbintrunc' signed_take_bit_int_eq_self)

lemma trunc_near: "\<bar>rat_of_int (trunc x) - x\<bar> \<le> 1"
  unfolding trunc_def by (simp add: abs_le_iff) linarith

lemma trunc_between:
  assumes "rat_of_int lo \<le> x" "x \<le> rat_of_int hi"
  shows "lo \<le> trunc x" "trunc x \<le> hi"
proof -
  have "lo \<le> \<lfloor>x\<rfloor>" using assms(1) by (simp add: le_floor_iff)
  moreover have "\<lfloor>x\<rfloor> \<le> \<lceil>x\<rceil>" by (rule floor_le_ceiling)
  moreover have "\<lceil>x\<rceil> \<le> hi" using assms(2) by (simp add: ceiling_le_iff)
  ultimately have "lo \<le> \<lfloor>x\<rfloor>" "lo \<le> \<lceil>x\<rceil>" "\<lfloor>x\<rfloor> \<le> hi" "\<lceil>x\<rceil> \<le> hi"
    by linarith+
  then show "lo \<le> trunc x" "trunc x \<le> hi"
    by (simp_all add: trunc_def)
qed

lemma mean_between:
  fixes a b :: rat
  assumes "a \<le> b"
  shows "a \<le> (a + b) / 2" "(a + b) / 2 \<le> b"
  using assms by (simp_all add: field_simps)

lemma in_int_53: "in_int i \<Longrightarrow> \<bar>i\<bar> < 2 ^ 53"
  by (simp add: in_int_def abs_less_iff)

section \<open>When the transform is defined\<close>

text \<open>
  The transform has a result exactly when no integer operation overflows, the source
  resolution is not zero and the scaled value converts to an \<^verbatim>\<open>int\<close>; the scaled
  value is monotone in the event's value when both resolutions are positive.
\<close>

lemma transform_eq_Some:
  "transform src dst v = Some r \<longleftrightarrow>
     in_int (sint v - sint (minimum src)) \<and>
     in_int (sint (maximum src) - sint (minimum src)) \<and>
     in_int (sint (maximum dst) - sint (minimum dst)) \<and>
     sint (resolution src) \<noteq> 0 \<and>
     in_int (trunc (d_add (d_add (d_mul (d_div (d_sub (i2d (sint v - sint (minimum src)))
                (d_div (i2d (sint (maximum src) - sint (minimum src))) 2))
              (i2d (sint (resolution src)))) (i2d (sint (resolution dst))))
           (d_div (i2d (sint (maximum dst) - sint (minimum dst))) 2))
         (i2d (sint (minimum dst))))) \<and>
     r = word_of_int (max_c (sint (minimum dst)) (min_c (sint (maximum dst))
       (trunc (d_add (d_add (d_mul (d_div (d_sub (i2d (sint v - sint (minimum src)))
                (d_div (i2d (sint (maximum src) - sint (minimum src))) 2))
              (i2d (sint (resolution src)))) (i2d (sint (resolution dst))))
           (d_div (i2d (sint (maximum dst) - sint (minimum dst))) 2))
         (i2d (sint (minimum dst)))))))"
  by (auto simp: transform_def c_int_def d2i_def Let_def bind_eq_Some_conv)










section \<open>The scenario of the specification\<close>

text \<open>
  C2. With source range \<open>{minimum 0, maximum 100, resolution 10}\<close> and destination range
  \<open>{minimum 0, maximum 50, resolution 5}\<close>, \<^verbatim>\<open>map_event\<close> maps the value 50 to 25, the
  value 0 to 0 and the value 200 to 50, whatever the event's time, type and code.
\<close>

theorem map_event_scenario:
  "map_event (\<lambda>c. Some \<lparr> minimum = 0, maximum = 100, resolution = 10 \<rparr>)
             (\<lambda>c. Some \<lparr> minimum = 0, maximum = 50, resolution = 5 \<rparr>)
             \<lparr> ev_time = t, ev_type = ty, ev_code = c, ev_value = 50 \<rparr>
     = Some \<lparr> ev_time = t, ev_type = ty, ev_code = c, ev_value = 25 \<rparr>
   \<and> map_event (\<lambda>c. Some \<lparr> minimum = 0, maximum = 100, resolution = 10 \<rparr>)
             (\<lambda>c. Some \<lparr> minimum = 0, maximum = 50, resolution = 5 \<rparr>)
             \<lparr> ev_time = t, ev_type = ty, ev_code = c, ev_value = 0 \<rparr>
     = Some \<lparr> ev_time = t, ev_type = ty, ev_code = c, ev_value = 0 \<rparr>
   \<and> map_event (\<lambda>c. Some \<lparr> minimum = 0, maximum = 100, resolution = 10 \<rparr>)
             (\<lambda>c. Some \<lparr> minimum = 0, maximum = 50, resolution = 5 \<rparr>)
             \<lparr> ev_time = t, ev_type = ty, ev_code = c, ev_value = 200 \<rparr>
     = Some \<lparr> ev_time = t, ev_type = ty, ev_code = c, ev_value = 50 \<rparr>"
proof -
  have t50: "transform \<lparr> minimum = 0, maximum = 100, resolution = 10 \<rparr>
                       \<lparr> minimum = 0, maximum = 50, resolution = 5 \<rparr> 50 = Some 25"
    by code_simp
  have t0: "transform \<lparr> minimum = 0, maximum = 100, resolution = 10 \<rparr>
                      \<lparr> minimum = 0, maximum = 50, resolution = 5 \<rparr> 0 = Some 0"
    by code_simp
  have t200: "transform \<lparr> minimum = 0, maximum = 100, resolution = 10 \<rparr>
                        \<lparr> minimum = 0, maximum = 50, resolution = 5 \<rparr> 200 = Some 50"
    by code_simp
  show ?thesis
    by (simp add: map_event_def libevdev_get_abs_info_def evemu_get_abs_minimum_def
        evemu_get_abs_maximum_def evemu_get_abs_resolution_def t50 t0 t200)
qed

section \<open>The midpoint of the source range\<close>

text \<open>
  The claim C7 as stated, for every pair of ranges with a non-zero source resolution,
  fails. A source range of odd width has no integer midpoint, and both integers next to
  it are moved by half a source unit times the ratio of the resolutions: with source
  \<open>{0, 1023, 8}\<close> and destination \<open>{0, 2000, 32}\<close> the values 511 and 512 go to 998 and
  1002, two units from the destination midpoint 1000. And for a destination whose
  minimum exceeds its maximum the clamp returns the minimum: with source \<open>{0, 100, 10}\<close>
  and destination \<open>{50, 0, 5}\<close> the midpoint 50 goes to 50, not near 25.
\<close>

theorem transform_midpoint_counterexample:
  "sint (resolution \<lparr> minimum = 0, maximum = 1023, resolution = 8 \<rparr>) \<noteq> 0
   \<and> transform \<lparr> minimum = 0, maximum = 1023, resolution = 8 \<rparr>
               \<lparr> minimum = 0, maximum = 2000, resolution = 32 \<rparr> 511 = Some 998
   \<and> transform \<lparr> minimum = 0, maximum = 1023, resolution = 8 \<rparr>
               \<lparr> minimum = 0, maximum = 2000, resolution = 32 \<rparr> 512 = Some 1002
   \<and> (rat_of_int (sint (minimum \<lparr> minimum = 0, maximum = 2000, resolution = 32 \<rparr>))
      + rat_of_int (sint (maximum \<lparr> minimum = 0, maximum = 2000, resolution = 32 \<rparr>))) / 2 = 1000
   \<and> sint (resolution \<lparr> minimum = 0, maximum = 100, resolution = 10 \<rparr>) \<noteq> 0
   \<and> transform \<lparr> minimum = 0, maximum = 100, resolution = 10 \<rparr>
               \<lparr> minimum = 50, maximum = 0, resolution = 5 \<rparr> 50 = Some 50
   \<and> (rat_of_int (sint (minimum \<lparr> minimum = 50, maximum = 0, resolution = 5 \<rparr>))
      + rat_of_int (sint (maximum \<lparr> minimum = 50, maximum = 0, resolution = 5 \<rparr>))) / 2 = 25"
proof -
  have a: "transform \<lparr> minimum = 0, maximum = 1023, resolution = 8 \<rparr>
               \<lparr> minimum = 0, maximum = 2000, resolution = 32 \<rparr> 511 = Some 998"
    by code_simp
  have b: "transform \<lparr> minimum = 0, maximum = 1023, resolution = 8 \<rparr>
               \<lparr> minimum = 0, maximum = 2000, resolution = 32 \<rparr> 512 = Some 1002"
    by code_simp
  have c: "transform \<lparr> minimum = 0, maximum = 100, resolution = 10 \<rparr>
               \<lparr> minimum = 50, maximum = 0, resolution = 5 \<rparr> 50 = Some 50"
    by code_simp
  show ?thesis by (simp add: a b c)
qed

text \<open>
  C7, amended. For a source range with a non-zero resolution and a destination range
  with minimum at most maximum, both of a width that fits an \<^verbatim>\<open>int\<close>, and an event
  value that is exactly the midpoint of the source range (twice the value is minimum plus
  maximum), the transform is defined and its result differs from the midpoint of the
  destination range by at most 1.
\<close>

theorem transform_midpoint:
  assumes res: "sint (resolution src) \<noteq> 0"
    and mid: "2 * sint v = sint (minimum src) + sint (maximum src)"
    and sw: "in_int (sint (maximum src) - sint (minimum src))"
    and dw: "in_int (sint (maximum dst) - sint (minimum dst))"
    and le: "sint (minimum dst) \<le> sint (maximum dst)"
  shows "\<exists>r. transform src dst v = Some r
           \<and> \<bar>rat_of_int (sint r)
               - (rat_of_int (sint (minimum dst)) + rat_of_int (sint (maximum dst))) / 2\<bar> \<le> 1"
proof -
  let ?a = "sint v - sint (minimum src)"
  let ?dmin = "sint (minimum dst)" and ?dmax = "sint (maximum dst)"
  let ?m = "(rat_of_int ?dmin + rat_of_int ?dmax) / 2"
  have w: "sint (maximum src) - sint (minimum src) = 2 * ?a" using mid by simp
  have a: "in_int ?a" using sw unfolding w by (simp add: in_int_def)
  have e: "i2d (2 * ?a) / 2 = rat_of_int ?a" by (simp add: i2d_def)
  have h: "d_div (i2d (2 * ?a)) 2 = rat_of_int ?a"
    unfolding d_div_def e by (rule rnd_of_int [OF in_int_53 [OF a]])
  have c: "d_sub (i2d ?a) (rat_of_int ?a) = 0"
    by (simp add: d_sub_def i2d_def rnd_zero)
  have v1: "d_div 0 (i2d (sint (resolution src))) = 0"
    by (simp add: d_div_def rnd_zero)
  have p: "d_mul 0 (i2d (sint (resolution dst))) = 0"
    by (simp add: d_mul_def rnd_zero)
  have dh: "d_div (i2d (?dmax - ?dmin)) 2 = rat_of_int (?dmax - ?dmin) / 2"
    unfolding d_div_def i2d_def by (rule rnd_half [OF in_int_53 [OF dw]])
  have s1: "d_add 0 (rat_of_int (?dmax - ?dmin) / 2) = rat_of_int (?dmax - ?dmin) / 2"
    unfolding d_add_def add_0_left by (rule rnd_half [OF in_int_53 [OF dw]])
  have e2: "rat_of_int (?dmax - ?dmin) / 2 + i2d ?dmin = ?m"
    by (simp add: i2d_def field_simps)
  have e3: "?m = rat_of_int (?dmin + ?dmax) / 2" by simp
  have "\<bar>?dmin + ?dmax\<bar> < 2 ^ 53"
    using in_int_sint [of "minimum dst"] in_int_sint [of "maximum dst"]
    by (simp add: in_int_def abs_less_iff)
  then have "rnd (rat_of_int (?dmin + ?dmax) / 2) = rat_of_int (?dmin + ?dmax) / 2"
    by (rule rnd_half)
  then have "rnd ?m = ?m" by (simp only: e3)
  then have s2: "d_add (rat_of_int (?dmax - ?dmin) / 2) (i2d ?dmin) = ?m"
    unfolding d_add_def e2 .
  have val: "d_add (d_add (d_mul (d_div (d_sub (i2d ?a)
                (d_div (i2d (sint (maximum src) - sint (minimum src))) 2))
              (i2d (sint (resolution src)))) (i2d (sint (resolution dst))))
           (d_div (i2d (?dmax - ?dmin)) 2))
         (i2d ?dmin) = ?m"
    by (simp only: w h c v1 p dh s1 s2)
  from le have "rat_of_int ?dmin \<le> rat_of_int ?dmax" by (simp only: of_int_le_iff)
  then have lo: "rat_of_int ?dmin \<le> ?m" and hi: "?m \<le> rat_of_int ?dmax"
    by (rule mean_between)+
  note tb = trunc_between [OF lo hi]
  have ti: "in_int (trunc ?m)"
    using tb in_int_sint [of "minimum dst"] in_int_sint [of "maximum dst"]
    by (simp add: in_int_def)
  have cl: "max_c ?dmin (min_c ?dmax (trunc ?m)) = trunc ?m"
    using tb by (simp add: max_c_def min_c_def)
  have tr: "transform src dst v = Some (word_of_int (trunc ?m))"
    unfolding transform_eq_Some val cl using a sw dw res ti by simp
  have r: "sint (word_of_int (trunc ?m) :: s32) = trunc ?m"
    using ti by (rule sint_word_of_int)
  have "\<bar>rat_of_int (sint (word_of_int (trunc ?m) :: s32)) - ?m\<bar> \<le> 1"
    unfolding r by (rule trunc_near)
  with tr show ?thesis by blast
qed

theorem transform_midpoint_witness:
  "sint (resolution \<lparr> minimum = 0, maximum = 100, resolution = 10 \<rparr>) \<noteq> 0
   \<and> 2 * sint (50 :: s32) = sint (minimum \<lparr> minimum = 0, maximum = 100, resolution = 10 \<rparr>)
                            + sint (maximum \<lparr> minimum = 0, maximum = 100, resolution = 10 \<rparr>)
   \<and> in_int (sint (maximum \<lparr> minimum = 0, maximum = 100, resolution = 10 \<rparr>)
              - sint (minimum \<lparr> minimum = 0, maximum = 100, resolution = 10 \<rparr>))
   \<and> in_int (sint (maximum \<lparr> minimum = 0, maximum = 51, resolution = 5 \<rparr>)
              - sint (minimum \<lparr> minimum = 0, maximum = 51, resolution = 5 \<rparr>))
   \<and> sint (minimum \<lparr> minimum = 0, maximum = 51, resolution = 5 \<rparr>)
       \<le> sint (maximum \<lparr> minimum = 0, maximum = 51, resolution = 5 \<rparr>)
   \<and> (\<exists>r. transform \<lparr> minimum = 0, maximum = 100, resolution = 10 \<rparr>
                     \<lparr> minimum = 0, maximum = 51, resolution = 5 \<rparr> 50 = Some r
           \<and> \<bar>rat_of_int (sint r)
               - (rat_of_int (sint (minimum \<lparr> minimum = 0, maximum = 51, resolution = 5 \<rparr>))
                  + rat_of_int (sint (maximum \<lparr> minimum = 0, maximum = 51, resolution = 5 \<rparr>))) / 2\<bar> \<le> 1)"
proof -
  have 1: "sint (resolution \<lparr> minimum = 0, maximum = 100, resolution = 10 \<rparr>) \<noteq> 0"
    by simp
  have 2: "2 * sint (50 :: s32) = sint (minimum \<lparr> minimum = 0, maximum = 100, resolution = 10 \<rparr>)
                            + sint (maximum \<lparr> minimum = 0, maximum = 100, resolution = 10 \<rparr>)"
    by simp
  have 3: "in_int (sint (maximum \<lparr> minimum = 0, maximum = 100, resolution = 10 \<rparr>)
              - sint (minimum \<lparr> minimum = 0, maximum = 100, resolution = 10 \<rparr>))"
    by (simp add: in_int_def)
  have 4: "in_int (sint (maximum \<lparr> minimum = 0, maximum = 51, resolution = 5 \<rparr>)
              - sint (minimum \<lparr> minimum = 0, maximum = 51, resolution = 5 \<rparr>))"
    by (simp add: in_int_def)
  have 5: "sint (minimum \<lparr> minimum = 0, maximum = 51, resolution = 5 \<rparr>)
       \<le> sint (maximum \<lparr> minimum = 0, maximum = 51, resolution = 5 \<rparr>)"
    by simp
  from transform_midpoint [OF 1 2 3 4 5] 1 2 3 4 5 show ?thesis by blast
qed

section \<open>Monotonicity\<close>








section \<open>Properties of the dispatcher\<close>

text \<open>
  C9. An event whose type is not \<^verbatim>\<open>EV_ABS\<close>, or whose code is none of \<^verbatim>\<open>ABS_X\<close>,
  \<^verbatim>\<open>ABS_Y\<close>, \<^verbatim>\<open>ABS_MT_POSITION_X\<close>, \<^verbatim>\<open>ABS_MT_POSITION_Y\<close>, is handed to
  \<^verbatim>\<open>evemu_play_one\<close> as it is: the value, and every other member, unchanged.
\<close>

theorem handle_event_passthrough:
  assumes "ev_type event \<noteq> EV_ABS
           \<or> (ev_code event \<noteq> ABS_X \<and> ev_code event \<noteq> ABS_Y
              \<and> ev_code event \<noteq> ABS_MT_POSITION_X \<and> ev_code event \<noteq> ABS_MT_POSITION_Y)"
  shows "handle_event source dest event tr = Some (tr @ [Play event])"
  using assms by (auto simp: handle_event_def pass_event_def)

theorem handle_event_passthrough_witness:
  "ev_type (demo_event 1 0x110 1) \<noteq> EV_ABS
   \<and> handle_event (\<lambda>c. None) (\<lambda>c. None) (demo_event 1 0x110 1) []
       = Some [Play (demo_event 1 0x110 1)]
   \<and> ev_code (demo_event EV_ABS 0x18 40) \<noteq> ABS_X
   \<and> ev_code (demo_event EV_ABS 0x18 40) \<noteq> ABS_Y
   \<and> ev_code (demo_event EV_ABS 0x18 40) \<noteq> ABS_MT_POSITION_X
   \<and> ev_code (demo_event EV_ABS 0x18 40) \<noteq> ABS_MT_POSITION_Y
   \<and> handle_event demo_source demo_dest (demo_event EV_ABS 0x18 40) []
       = Some [Play (demo_event EV_ABS 0x18 40)]"
proof -
  have k: "ev_type (demo_event 1 0x110 1) \<noteq> EV_ABS"
    by (simp add: demo_event_def EV_ABS_def)
  have p: "ev_code (demo_event EV_ABS 0x18 40) \<noteq> ABS_X"
    "ev_code (demo_event EV_ABS 0x18 40) \<noteq> ABS_Y"
    "ev_code (demo_event EV_ABS 0x18 40) \<noteq> ABS_MT_POSITION_X"
    "ev_code (demo_event EV_ABS 0x18 40) \<noteq> ABS_MT_POSITION_Y"
    by (simp_all add: demo_event_def ABS_X_def ABS_Y_def ABS_MT_POSITION_X_def
        ABS_MT_POSITION_Y_def)
  from k handle_event_passthrough [of "demo_event 1 0x110 1" "\<lambda>c. None" "\<lambda>c. None" "[]"]
  have a: "handle_event (\<lambda>c. None) (\<lambda>c. None) (demo_event 1 0x110 1) []
       = Some [Play (demo_event 1 0x110 1)]"
    by simp
  from p handle_event_passthrough [of "demo_event EV_ABS 0x18 40" demo_source demo_dest "[]"]
  have b: "handle_event demo_source demo_dest (demo_event EV_ABS 0x18 40) []
       = Some [Play (demo_event EV_ABS 0x18 40)]"
    by simp
  from k p a b show ?thesis by simp
qed

lemma map_event_fields:
  assumes "map_event source dest event = Some event'"
  shows "ev_time event' = ev_time event" "ev_type event' = ev_type event" "ev_code event' = ev_code event"
  using assms by (auto simp: map_event_def Let_def split: option.splits)

text \<open>
  C10. Whenever \<^verbatim>\<open>handle_event\<close> forwards an event, it forwards exactly one, with
  the time, type and code of the event it was given; the value differs only if the type
  is \<^verbatim>\<open>EV_ABS\<close> and the code is one of the four positional codes.
\<close>

theorem handle_event_frame:
  assumes "handle_event source dest event tr = Some tr'"
  shows "\<exists>event'. tr' = tr @ [Play event']
           \<and> ev_time event' = ev_time event
           \<and> ev_type event' = ev_type event
           \<and> ev_code event' = ev_code event
           \<and> (ev_value event' = ev_value event
              \<or> (ev_type event = EV_ABS
                 \<and> (ev_code event = ABS_X \<or> ev_code event = ABS_Y
                    \<or> ev_code event = ABS_MT_POSITION_X \<or> ev_code event = ABS_MT_POSITION_Y)))"
proof (cases "ev_type event = EV_ABS
              \<and> (ev_code event = ABS_X \<or> ev_code event = ABS_Y
                 \<or> ev_code event = ABS_MT_POSITION_X \<or> ev_code event = ABS_MT_POSITION_Y)")
  case True
  with assms obtain event' where m: "map_event source dest event = Some event'"
    and t: "tr' = tr @ [Play event']"
    by (auto simp: handle_event_def pass_event_def split: option.splits)
  from map_event_fields [OF m] t True show ?thesis by blast
next
  case False
  with assms have "tr' = tr @ [Play event]"
    by (auto simp: handle_event_def pass_event_def split: if_splits)
  then show ?thesis by blast
qed

lemma transform_demo_50:
  "transform \<lparr> minimum = 0, maximum = 100, resolution = 10 \<rparr>
             \<lparr> minimum = 0, maximum = 50, resolution = 5 \<rparr> 50 = Some 25"
  by code_simp

lemma handle_event_demo:
  "handle_event demo_source demo_dest (demo_event EV_ABS ABS_X 50) tr
   = Some (tr @ [Play (demo_event EV_ABS ABS_X 25)])"
  by (simp add: handle_event_def pass_event_def map_event_def demo_source_def demo_dest_def
      demo_event_def libevdev_get_abs_info_def evemu_get_abs_minimum_def
      evemu_get_abs_maximum_def evemu_get_abs_resolution_def transform_demo_50)

theorem handle_event_frame_witness:
  "handle_event demo_source demo_dest (demo_event EV_ABS ABS_X 50) []
     = Some [Play (demo_event EV_ABS ABS_X 25)]
   \<and> (\<exists>event'. [Play (demo_event EV_ABS ABS_X 25)] = [] @ [Play event']
         \<and> ev_time event' = ev_time (demo_event EV_ABS ABS_X 50)
         \<and> ev_type event' = ev_type (demo_event EV_ABS ABS_X 50)
         \<and> ev_code event' = ev_code (demo_event EV_ABS ABS_X 50)
         \<and> (ev_value event' = ev_value (demo_event EV_ABS ABS_X 50)
            \<or> (ev_type (demo_event EV_ABS ABS_X 50) = EV_ABS
               \<and> (ev_code (demo_event EV_ABS ABS_X 50) = ABS_X
                  \<or> ev_code (demo_event EV_ABS ABS_X 50) = ABS_Y
                  \<or> ev_code (demo_event EV_ABS ABS_X 50) = ABS_MT_POSITION_X
                  \<or> ev_code (demo_event EV_ABS ABS_X 50) = ABS_MT_POSITION_Y))))"
proof -
  have h: "handle_event demo_source demo_dest (demo_event EV_ABS ABS_X 50) []
     = Some [Play (demo_event EV_ABS ABS_X 25)]"
    using handle_event_demo [of "[]"] by simp
  from handle_event_frame [OF h] h show ?thesis by blast
qed

section \<open>Properties of the event loop\<close>

text \<open>The loop only appends to the trace, and what it appends is no grab call.\<close>

lemma handle_event_trace:
  assumes "handle_event source dest event tr = Some tr'"
  shows "\<exists>e. tr' = tr @ [Play e]"
  using assms by (auto simp: handle_event_def pass_event_def split: if_splits option.splits)

lemma drain_trace:
  "drain source dest rs tr = (x, rs', tr') \<Longrightarrow> \<exists>ext. tr' = tr @ ext \<and> Grab m \<notin> set ext"
proof (induction source dest rs tr arbitrary: x rs' tr' rule: drain.induct)
  case (1 source dest tr)
  then show ?case by simp
next
  case (2 source dest rc ev rs tr)
  show ?case
  proof (cases "rc = LIBEVDEV_READ_STATUS_SYNC \<or> (rc \<noteq> - EAGAIN \<and> rc < 0)")
    case True
    with "2.prems" show ?thesis by (auto split: if_splits)
  next
    case go: False
    let ?h = "if rc = LIBEVDEV_READ_STATUS_SUCCESS
              then handle_event source dest ev tr else Some tr"
    show ?thesis
    proof (cases ?h)
      case None
      with go "2.prems" show ?thesis by auto
    next
      case (Some tr1)
      then have t1: "\<exists>e1. tr1 = tr @ e1 \<and> Grab m \<notin> set e1"
        using handle_event_trace [of source dest ev tr tr1]
        by (auto split: if_splits)
      show ?thesis
      proof (cases "rc \<noteq> - EAGAIN")
        case True
        with go Some "2.prems" have d: "drain source dest rs tr1 = (x, rs', tr')" by auto
        from go Some True have "\<exists>ext. tr' = tr1 @ ext \<and> Grab m \<notin> set ext"
          by (intro "2.IH" [OF _ _ _ _ d]) auto
        with t1 show ?thesis by auto
      next
        case False
        with go Some "2.prems" have "tr' = tr1" by auto
        with t1 show ?thesis by auto
      qed
    qed
  qed
qed

lemma mainloop_trace:
  "mainloop source dest ps rs tr = (r, rs', tr') \<Longrightarrow> \<exists>ext. tr' = tr @ ext \<and> Grab m \<notin> set ext"
proof (induction source dest ps rs tr arbitrary: r rs' tr' rule: mainloop.induct)
  case (1 source dest rs tr)
  then show ?case by simp
next
  case (2 source dest p ps rs tr)
  show ?case
  proof (cases "poll_ret p = 0 \<or> revents_signal p \<noteq> 0")
    case True
    with "2.prems" show ?thesis by (auto split: if_splits)
  next
    case False
    obtain x rs1 tr1 where d: "drain source dest rs tr = (x, rs1, tr1)"
      by (cases "drain source dest rs tr") auto
    from drain_trace [OF d] obtain ext1 where e1: "tr1 = tr @ ext1" "Grab m \<notin> set ext1" by blast
    show ?thesis
    proof (cases x)
      case Drained
      with False d "2.prems" have m: "mainloop source dest ps rs1 tr1 = (r, rs', tr')" by auto
      from False d Drained have "\<exists>ext. tr' = tr1 @ ext \<and> Grab m \<notin> set ext"
        by (intro "2.IH" [OF _ _ _ _ _ m]) auto
      with e1 show ?thesis by auto
    next
      case (Stop y)
      with False d "2.prems" have "tr' = tr1" by auto
      with e1 show ?thesis by auto
    qed
  qed
qed

text \<open>
  C6. The loop carries no state from one iteration to the next but the unread script
  and the trace, so an iteration is a call of \<open>mainloop\<close> with some \<open>rs\<close> and \<open>tr\<close>. In an
  iteration where \<^verbatim>\<open>poll\<close> reports the signal descriptor ready, \<open>mainloop\<close> returns 0
  with \<open>rs\<close> and \<open>tr\<close> as they were: no event is read and none is forwarded, whatever
  \<^verbatim>\<open>poll\<close> reports about the source device.
\<close>

theorem mainloop_shutdown:
  assumes "poll_ret p \<noteq> 0" and "revents_signal p \<noteq> 0"
  shows "mainloop source dest (p # ps) rs tr = (Returned 0, rs, tr)"
  using assms by simp

theorem mainloop_shutdown_witness:
  "poll_ret \<lparr> poll_ret = 2, revents_source = 1, revents_signal = 1 \<rparr> \<noteq> 0
   \<and> revents_signal \<lparr> poll_ret = 2, revents_source = 1, revents_signal = 1 \<rparr> \<noteq> 0
   \<and> mainloop demo_source demo_dest
        [\<lparr> poll_ret = 2, revents_source = 1, revents_signal = 1 \<rparr>]
        [(0, demo_event EV_ABS ABS_X 50), (- 11, demo_event 0 0 0)] []
       = (Returned 0, [(0, demo_event EV_ABS ABS_X 50), (- 11, demo_event 0 0 0)], [])"
proof -
  have a: "poll_ret \<lparr> poll_ret = 2, revents_source = 1, revents_signal = 1 \<rparr> \<noteq> 0"
    by simp
  have b: "revents_signal \<lparr> poll_ret = 2, revents_source = 1, revents_signal = 1 \<rparr> \<noteq> 0"
    by simp
  from mainloop_shutdown [OF a b] a b show ?thesis by blast
qed

text \<open>
  The claim C3, that the loop reports failure when \<^verbatim>\<open>poll\<close> returns zero, fails: the
  \<^verbatim>\<open>while\<close> condition is false, the loop ends and \<^verbatim>\<open>return 0\<close> follows, the same status
  as for a shutdown; 1 is what \<open>mainloop\<close> returns for a failure.
\<close>

theorem mainloop_poll_zero_counterexample:
  "fst (mainloop demo_source demo_dest
          [\<lparr> poll_ret = 0, revents_source = 0, revents_signal = 0 \<rparr>]
          [(LIBEVDEV_READ_STATUS_SUCCESS, demo_event EV_ABS ABS_X 50)] []) = Returned 0
   \<and> fst (mainloop demo_source demo_dest
          [\<lparr> poll_ret = 0, revents_source = 0, revents_signal = 0 \<rparr>]
          [(LIBEVDEV_READ_STATUS_SUCCESS, demo_event EV_ABS ABS_X 50)] []) \<noteq> Returned 1"
  by simp

text \<open>
  C3, amended. If \<^verbatim>\<open>poll\<close> returns zero, the loop stops and \<open>mainloop\<close> returns 0, the
  status of success, without reading or forwarding an event.
\<close>

theorem mainloop_poll_zero:
  assumes "poll_ret p = 0"
  shows "mainloop source dest (p # ps) rs tr = (Returned 0, rs, tr)"
  using assms by simp

theorem mainloop_poll_zero_witness:
  "poll_ret \<lparr> poll_ret = 0, revents_source = 0, revents_signal = 0 \<rparr> = 0
   \<and> mainloop demo_source demo_dest
        (\<lparr> poll_ret = 0, revents_source = 0, revents_signal = 0 \<rparr>
           # [\<lparr> poll_ret = 1, revents_source = 1, revents_signal = 0 \<rparr>])
        [(1, demo_event 0 3 0)] [Grab LIBEVDEV_GRAB]
       = (Returned 0, [(1, demo_event 0 3 0)], [Grab LIBEVDEV_GRAB])"
proof -
  have a: "poll_ret \<lparr> poll_ret = 0, revents_source = 0, revents_signal = 0 \<rparr> = 0"
    by simp
  from mainloop_poll_zero [OF a] a show ?thesis by blast
qed

section \<open>Properties of the session\<close>

lemma startup_demo: "startup demo_argv (demo_env ps rs) = None"
  by (simp add: startup_def demo_argv_def demo_env_def demo_source_def demo_dest_def
      nyquist_not_met_def libevdev_get_abs_resolution_def evemu_get_abs_resolution_def
      c_int_def in_int_def)

lemma startup_grab_rc: "startup argv (env \<lparr> grab_rc := r \<rparr>) = startup argv env"
  by (simp add: startup_def)

text \<open>
  C1. The second half of the claim fails on the code: \<^verbatim>\<open>main\<close> calls
  \<^verbatim>\<open>mainloop\<close> as a statement and then returns 0. On a source device whose first
  read reports \<^verbatim>\<open>LIBEVDEV_READ_STATUS_SYNC\<close> the loop returns 1 after
  \<^verbatim>\<open>error: cannot keep up\<close>, and the exit status of the session is 0.
\<close>

theorem main_discards_loop_failure:
  "mainloop demo_source demo_dest
     [\<lparr> poll_ret = 1, revents_source = 1, revents_signal = 0 \<rparr>]
     [(LIBEVDEV_READ_STATUS_SYNC, demo_event 0 3 0)] [Grab LIBEVDEV_GRAB]
   = (Returned 1, [], [Grab LIBEVDEV_GRAB, Diag Cannot_keep_up])
   \<and> main demo_argv
        (demo_env [\<lparr> poll_ret = 1, revents_source = 1, revents_signal = 0 \<rparr>]
                  [(LIBEVDEV_READ_STATUS_SYNC, demo_event 0 3 0)])
     = \<lparr> exit_status = Returned 0,
         session_trace = [Grab LIBEVDEV_GRAB, Diag Cannot_keep_up, Grab LIBEVDEV_UNGRAB],
         grabbed = False \<rparr>"
  unfolding main_def startup_demo
  by (simp add: demo_env_def libevdev_grab_def)

text \<open>
  The claim C4, that a failed acquisition of the grab ends the session with a diagnostic
  and status 1, fails: with \<^verbatim>\<open>libevdev_grab\<close> failing with \<^verbatim>\<open>-EBUSY\<close> and a
  shutdown signal at the first \<^verbatim>\<open>poll\<close>, the session writes no diagnostic and ends with
  status 0.
\<close>

theorem main_grab_failure_counterexample:
  "main demo_argv
     ((demo_env [\<lparr> poll_ret = 1, revents_source = 0, revents_signal = 1 \<rparr>] [])
        \<lparr> grab_rc := - 16 \<rparr>)
   = \<lparr> exit_status = Returned 0,
       session_trace = [Grab LIBEVDEV_GRAB, Grab LIBEVDEV_UNGRAB],
       grabbed = False \<rparr>"
  unfolding main_def startup_grab_rc startup_demo
  by (simp add: demo_env_def libevdev_grab_def)

text \<open>
  C4, amended. The result of acquiring the grab has no influence on the session: the
  exit status and everything the session does (the events forwarded, the diagnostics,
  the grab calls) are the same whether the acquisition fails with any status \<open>r\<close> or
  succeeds. A failure is not reported and is not fatal.
\<close>

theorem main_grab_failure_ignored:
  "exit_status (main argv (env \<lparr> grab_rc := r \<rparr>)) = exit_status (main argv (env \<lparr> grab_rc := 0 \<rparr>))
   \<and> session_trace (main argv (env \<lparr> grab_rc := r \<rparr>))
       = session_trace (main argv (env \<lparr> grab_rc := 0 \<rparr>))"
  by (simp add: main_def startup_grab_rc Let_def split: option.splits prod.splits outcome.splits)

text \<open>
  C5. When the startup succeeds and the event loop returns, with whatever status \<open>r\<close>,
  the session's trace is the acquisition, then what the loop did, then the release, and
  no other grab call; if the release succeeds the device is not grabbed afterwards.
  When \<^verbatim>\<open>main\<close> ends in the startup, it has made no grab call and the device is not
  grabbed.
\<close>

theorem main_releases_grab:
  "(startup argv env = None
      \<and> mainloop (source_dev env) (dest_dev env) (polls env) (reads env) [Grab LIBEVDEV_GRAB]
          = (Returned r, rs, tr)
    \<longrightarrow> (\<exists>ext. session_trace (main argv env)
                   = [Grab LIBEVDEV_GRAB] @ ext @ [Grab LIBEVDEV_UNGRAB]
               \<and> Grab LIBEVDEV_GRAB \<notin> set ext \<and> Grab LIBEVDEV_UNGRAB \<notin> set ext)
        \<and> (ungrab_rc env = 0 \<longrightarrow> \<not> grabbed (main argv env)))
   \<and> (startup argv env = Some s
    \<longrightarrow> main argv env = s \<and> \<not> grabbed s
        \<and> Grab LIBEVDEV_GRAB \<notin> set (session_trace s))"
proof (intro conjI impI)
  assume a: "startup argv env = None
      \<and> mainloop (source_dev env) (dest_dev env) (polls env) (reads env) [Grab LIBEVDEV_GRAB]
          = (Returned r, rs, tr)"
  then have m: "mainloop (source_dev env) (dest_dev env) (polls env) (reads env) [Grab LIBEVDEV_GRAB]
          = (Returned r, rs, tr)" ..
  from mainloop_trace [OF m, of LIBEVDEV_GRAB] obtain e1
    where e1: "tr = [Grab LIBEVDEV_GRAB] @ e1" "Grab LIBEVDEV_GRAB \<notin> set e1" by blast
  from mainloop_trace [OF m, of LIBEVDEV_UNGRAB] obtain e2
    where e2: "tr = [Grab LIBEVDEV_GRAB] @ e2" "Grab LIBEVDEV_UNGRAB \<notin> set e2" by blast
  from e1 e2 have "e1 = e2" by simp
  with e1 e2 have "tr @ [Grab LIBEVDEV_UNGRAB] = [Grab LIBEVDEV_GRAB] @ e1 @ [Grab LIBEVDEV_UNGRAB]
      \<and> Grab LIBEVDEV_GRAB \<notin> set e1 \<and> Grab LIBEVDEV_UNGRAB \<notin> set e1"
    by simp
  moreover have "session_trace (main argv env) = tr @ [Grab LIBEVDEV_UNGRAB]"
    using a by (simp add: main_def Let_def)
  ultimately show "\<exists>ext. session_trace (main argv env)
                   = [Grab LIBEVDEV_GRAB] @ ext @ [Grab LIBEVDEV_UNGRAB]
               \<and> Grab LIBEVDEV_GRAB \<notin> set ext \<and> Grab LIBEVDEV_UNGRAB \<notin> set ext"
    by metis
  assume "ungrab_rc env = 0"
  with a show "\<not> grabbed (main argv env)"
    by (simp add: main_def Let_def libevdev_grab_def)
next
  assume s: "startup argv env = Some s"
  then show "main argv env = s" by (simp add: main_def)
  from s show "\<not> grabbed s"
    by (auto simp: startup_def split: if_splits)
  from s show "Grab LIBEVDEV_GRAB \<notin> set (session_trace s)"
    by (auto simp: startup_def split: if_splits)
qed

lemma mainloop_demo_sync:
  "mainloop demo_source demo_dest
     [\<lparr> poll_ret = 1, revents_source = 1, revents_signal = 0 \<rparr>]
     [(LIBEVDEV_READ_STATUS_SUCCESS, demo_event EV_ABS ABS_X 50),
      (LIBEVDEV_READ_STATUS_SYNC, demo_event 0 3 0)]
     [Grab LIBEVDEV_GRAB]
   = (Returned 1, [],
      [Grab LIBEVDEV_GRAB, Play (demo_event EV_ABS ABS_X 25), Diag Cannot_keep_up])"
  by (simp add: handle_event_demo LIBEVDEV_READ_STATUS_SUCCESS_def
      LIBEVDEV_READ_STATUS_SYNC_def EAGAIN_def)

lemma startup_usage:
  "startup [''touchpad-emulator''] env
   = Some \<lparr> exit_status = Returned 1, session_trace = [], grabbed = False \<rparr>"
  by (simp add: startup_def)

theorem main_releases_grab_witness:
  "startup demo_argv
     (demo_env [\<lparr> poll_ret = 1, revents_source = 1, revents_signal = 0 \<rparr>]
        [(LIBEVDEV_READ_STATUS_SUCCESS, demo_event EV_ABS ABS_X 50),
         (LIBEVDEV_READ_STATUS_SYNC, demo_event 0 3 0)]) = None
   \<and> mainloop demo_source demo_dest
        [\<lparr> poll_ret = 1, revents_source = 1, revents_signal = 0 \<rparr>]
        [(LIBEVDEV_READ_STATUS_SUCCESS, demo_event EV_ABS ABS_X 50),
         (LIBEVDEV_READ_STATUS_SYNC, demo_event 0 3 0)]
        [Grab LIBEVDEV_GRAB]
      = (Returned 1, [],
         [Grab LIBEVDEV_GRAB, Play (demo_event EV_ABS ABS_X 25), Diag Cannot_keep_up])
   \<and> (\<exists>ext. session_trace (main demo_argv
          (demo_env [\<lparr> poll_ret = 1, revents_source = 1, revents_signal = 0 \<rparr>]
             [(LIBEVDEV_READ_STATUS_SUCCESS, demo_event EV_ABS ABS_X 50),
              (LIBEVDEV_READ_STATUS_SYNC, demo_event 0 3 0)]))
          = [Grab LIBEVDEV_GRAB] @ ext @ [Grab LIBEVDEV_UNGRAB]
        \<and> Grab LIBEVDEV_GRAB \<notin> set ext \<and> Grab LIBEVDEV_UNGRAB \<notin> set ext)
   \<and> \<not> grabbed (main demo_argv
          (demo_env [\<lparr> poll_ret = 1, revents_source = 1, revents_signal = 0 \<rparr>]
             [(LIBEVDEV_READ_STATUS_SUCCESS, demo_event EV_ABS ABS_X 50),
              (LIBEVDEV_READ_STATUS_SYNC, demo_event 0 3 0)]))
   \<and> startup [''touchpad-emulator''] (demo_env [] [])
      = Some \<lparr> exit_status = Returned 1, session_trace = [], grabbed = False \<rparr>
   \<and> main [''touchpad-emulator''] (demo_env [] [])
      = \<lparr> exit_status = Returned 1, session_trace = [], grabbed = False \<rparr>
   \<and> \<not> grabbed \<lparr> exit_status = Returned 1, session_trace = [], grabbed = False \<rparr>
   \<and> Grab LIBEVDEV_GRAB
       \<notin> set (session_trace \<lparr> exit_status = Returned 1, session_trace = [], grabbed = False \<rparr>)"
proof -
  let ?ps = "[\<lparr> poll_ret = 1, revents_source = 1, revents_signal = 0 \<rparr>]"
  let ?rs = "[(LIBEVDEV_READ_STATUS_SUCCESS, demo_event EV_ABS ABS_X 50),
              (LIBEVDEV_READ_STATUS_SYNC, demo_event 0 3 0)]"
  let ?tr = "[Grab LIBEVDEV_GRAB, Play (demo_event EV_ABS ABS_X 25), Diag Cannot_keep_up]"
  let ?s = "\<lparr> exit_status = Returned 1, session_trace = [], grabbed = False \<rparr>"
  have s1: "startup demo_argv (demo_env ?ps ?rs) = None" by (rule startup_demo)
  have m1: "mainloop (source_dev (demo_env ?ps ?rs)) (dest_dev (demo_env ?ps ?rs))
              (polls (demo_env ?ps ?rs)) (reads (demo_env ?ps ?rs)) [Grab LIBEVDEV_GRAB]
            = (Returned 1, [], ?tr)"
    using mainloop_demo_sync by (simp add: demo_env_def)
  have u1: "ungrab_rc (demo_env ?ps ?rs) = 0" by (simp add: demo_env_def)
  have s2: "startup [''touchpad-emulator''] (demo_env [] []) = Some ?s" by (rule startup_usage)
  from main_releases_grab [of demo_argv "demo_env ?ps ?rs" 1 "[]" ?tr ?s] s1 m1 u1
  have c1: "\<exists>ext. session_trace (main demo_argv (demo_env ?ps ?rs))
                = [Grab LIBEVDEV_GRAB] @ ext @ [Grab LIBEVDEV_UNGRAB]
              \<and> Grab LIBEVDEV_GRAB \<notin> set ext \<and> Grab LIBEVDEV_UNGRAB \<notin> set ext"
    and c2: "\<not> grabbed (main demo_argv (demo_env ?ps ?rs))"
    by blast+
  from main_releases_grab [of "[''touchpad-emulator'']" "demo_env [] []" 0 "[]" "[]" ?s] s2
  have c3: "main [''touchpad-emulator''] (demo_env [] []) = ?s"
    and c4: "\<not> grabbed ?s" and c5: "Grab LIBEVDEV_GRAB \<notin> set (session_trace ?s)"
    by blast+
  from s1 mainloop_demo_sync c1 c2 s2 c3 c4 c5 show ?thesis by blast
qed

end
